theory Spec2Isabelle
  imports Main "HOL-Library.Word" "HOL-Library.Sublist" "HOL-Library.AList"
begin

section \<open>Python values\<close>

text \<open>
  A Python \<open>str\<close> is a sequence of Unicode code points, so slicing and \<open>len\<close> count code
  points. It is modelled as a list of code points; \<open>py\<close> embeds an ASCII literal, and
  characters outside ASCII are written by their code point.
\<close>

type_synonym pystr = "nat list"

definition py :: "string \<Rightarrow> pystr" where
  "py s = map of_char s"

text \<open>
  The value \<open>json.loads\<close> returns: \<open>None\<close>, \<open>bool\<close>, \<open>int\<close>, \<open>float\<close> (its 64 IEEE bits),
  \<open>str\<close>, \<open>list\<close> and \<open>dict\<close> (keys in insertion order).
\<close>

datatype json =
    JNull
  | JBool bool
  | JInt int
  | JFloat "64 word"
  | JString pystr
  | JArray "json list"
  | JObject "(pystr \<times> json) list"

type_synonym pydict = "(pystr \<times> json) list"

datatype py_error =
    AttributeError
  | KeyError pystr
  | IndexError
  | TypeError
  | ValueError
  | RecursionError
  | ApiError

text \<open>Truth value of an object in a condition (\<open>if x\<close>, \<open>x and y\<close>, \<open>not x\<close>).\<close>

fun truthy :: "json \<Rightarrow> bool" where
  "truthy JNull = False"
| "truthy (JBool b) = b"
| "truthy (JInt i) = (i \<noteq> 0)"
| "truthy (JFloat w) = (take_bit 63 w \<noteq> 0)"
| "truthy (JString s) = (s \<noteq> [])"
| "truthy (JArray xs) = (xs \<noteq> [])"
| "truthy (JObject kvs) = (kvs \<noteq> [])"

text \<open>\<open>d.get(k)\<close>, \<open>d.get(k, default)\<close>, \<open>d[k]\<close> and \<open>d[k] = v\<close> on a \<open>dict\<close>.\<close>

definition dict_get :: "pydict \<Rightarrow> pystr \<Rightarrow> json" where
  "dict_get d k = (case map_of d k of None \<Rightarrow> JNull | Some v \<Rightarrow> v)"

definition dict_get_default :: "pydict \<Rightarrow> pystr \<Rightarrow> json \<Rightarrow> json" where
  "dict_get_default d k dflt = (case map_of d k of None \<Rightarrow> dflt | Some v \<Rightarrow> v)"

definition getitem :: "pydict \<Rightarrow> pystr \<Rightarrow> py_error + json" where
  "getitem d k = (case map_of d k of None \<Rightarrow> Inl (KeyError k) | Some v \<Rightarrow> Inr v)"

definition setitem :: "pydict \<Rightarrow> pystr \<Rightarrow> json \<Rightarrow> pydict" where
  "setitem d k v = AList.update k v d"

subsection \<open>String methods\<close>

text \<open>The characters \<open>str.strip()\<close> removes: those for which \<open>str.isspace\<close> holds.\<close>

definition isspace :: "nat \<Rightarrow> bool" where
  "isspace c \<longleftrightarrow>
     (9 \<le> c \<and> c \<le> 13) \<or> (28 \<le> c \<and> c \<le> 32) \<or> c = 133 \<or> c = 160 \<or> c = 5760 \<or>
     (8192 \<le> c \<and> c \<le> 8202) \<or> c = 8232 \<or> c = 8233 \<or> c = 8239 \<or> c = 8287 \<or> c = 12288"

definition strip :: "pystr \<Rightarrow> pystr" where
  "strip s = rev (dropWhile isspace (rev (dropWhile isspace s)))"

definition startswith :: "pystr \<Rightarrow> pystr \<Rightarrow> bool" where
  "startswith s p = prefix p s"

text \<open>
  \<open>s.split(sep)\<close> for a non-empty separator: cut at each occurrence of \<open>sep\<close>, found from
  left to right without overlap. \<open>acc\<close> holds the current piece, reversed.
\<close>

function split_from :: "pystr \<Rightarrow> pystr \<Rightarrow> pystr \<Rightarrow> pystr list" where
  "split_from sep acc [] = [rev acc]"
| "split_from sep acc (c # cs) =
     (if sep \<noteq> [] \<and> prefix sep (c # cs)
      then rev acc # split_from sep [] (drop (length sep) (c # cs))
      else split_from sep (c # acc) cs)"
  by pat_completeness auto
termination
  by (relation "measure (\<lambda>(sep, acc, s). length s)") auto

definition split :: "pystr \<Rightarrow> pystr \<Rightarrow> pystr list" where
  "split s sep = split_from sep [] s"

text \<open>\<open>xs[i]\<close> for a non-negative index.\<close>

definition index :: "'a list \<Rightarrow> nat \<Rightarrow> py_error + 'a" where
  "index xs i = (if i < length xs then Inr (xs ! i) else Inl IndexError)"

text \<open>\<open>sep.join(xs)\<close>.\<close>

fun join :: "pystr \<Rightarrow> pystr list \<Rightarrow> pystr" where
  "join sep [] = []"
| "join sep [x] = x"
| "join sep (x # y # ys) = x @ sep @ join sep (y # ys)"

section \<open>The services the script calls\<close>

text \<open>
  The language model receives a prompt built by an f-string. A prompt is recorded by the
  values interpolated into its template, which determine its text.
\<close>

datatype prompt =
    AnalysisPrompt pystr pystr
  | EnrichmentPrompt pystr json pystr json

text \<open>
  \<open>model.generate_content(p)\<close> either raises, or returns a response whose \<open>.text\<close>
  either raises or is a string.
\<close>

datatype gen_response = GenRaises | NoText | Text pystr

text \<open>
  \<open>client.search(query, max_results)\<close> either raises an exception \<open>e\<close> (kept as \<open>str(e)\<close>),
  or returns a dict whose \<open>"results"\<close> entry, when present, lists title/content pairs.
\<close>

datatype search_outcome =
    SearchRaises pystr
  | SearchResponse "(pystr \<times> pystr) list option"

text \<open>The Slack message: a list of blocks.\<close>

datatype text_object = PlainText pystr bool | Mrkdwn pystr

datatype block =
    Header text_object
  | SectionFields "text_object list"
  | SectionText text_object
  | Divider
  | Context "text_object list"

text \<open>
  \<open>requests.post\<close> raises a \<open>RequestException\<close> (kept as \<open>str(e)\<close>), or returns a response
  on which \<open>raise_for_status()\<close> raises an \<open>HTTPError\<close> or returns.
\<close>

datatype post_outcome =
    RequestException pystr
  | HTTPError pystr
  | StatusOk

text \<open>
  \<open>json.loads\<close> on a string returns the value, or raises \<open>JSONDecodeError\<close>, or raises
  another exception: \<open>RecursionError\<close> on a text nested too deeply, \<open>ValueError\<close> on an
  integer of too many digits.
\<close>

datatype loads_outcome =
    Parsed json
  | JSONDecodeError
  | LoadsRaises py_error

datatype event =
    GenerateContent prompt
  | TavilySearch pystr json nat
  | RequestsPost pystr "block list"
  | Print pystr

text \<open>
  The process environment read at import time, and the library functions the script
  calls: \<open>json.loads\<close>, the three remote services, and
  \<open>str()\<close> of a value that is not a string, as an f-string renders it.
\<close>

record env =
  SLACK_WEBHOOK_URL :: "pystr option"
  TAVILY_API_KEY :: "pystr option"
  ISSUE_TITLE :: pystr
  ISSUE_NUMBER :: pystr
  ISSUE_URL :: pystr
  ISSUE_AUTHOR :: pystr
  ASSIGNEE_USERNAME :: pystr
  REPO_NAME :: pystr
  USER_MAPPING :: "(pystr \<times> pystr) list"
  json_loads :: "pystr \<Rightarrow> loads_outcome"
  generate_content :: "prompt \<Rightarrow> gen_response"
  tavily_search :: "pystr \<Rightarrow> json \<Rightarrow> nat \<Rightarrow> search_outcome"
  requests_post :: "pystr \<Rightarrow> block list \<Rightarrow> post_outcome"
  py_str :: "json \<Rightarrow> pystr"

text \<open>\<open>not x\<close> for an environment variable: unset or empty.\<close>

definition configured :: "pystr option \<Rightarrow> pystr option" where
  "configured v = (case v of None \<Rightarrow> None | Some s \<Rightarrow> if s = [] then None else Some s)"

text \<open>A value interpolated into an f-string.\<close>

definition fmt :: "env \<Rightarrow> json \<Rightarrow> pystr" where
  "fmt e v = (case v of JString s \<Rightarrow> s | _ \<Rightarrow> py_str e v)"

section \<open>web_search\<close>

definition search_unavailable :: pystr where
  "search_unavailable =
     py ''Web search n'' @ [227] @ py ''o dispon'' @ [237] @ py ''vel (TAVILY_API_KEY n'' @ [227]
       @ py ''o configurada)''"

definition no_results :: pystr where
  "no_results = py ''Nenhum resultado encontrado''"

definition search_error :: "pystr \<Rightarrow> pystr" where
  "search_error msg = py ''Erro na pesquisa: '' @ msg"

definition result_line :: "pystr \<times> pystr \<Rightarrow> pystr" where
  "result_line r = py ''- '' @ fst r @ py '': '' @ take 200 (snd r) @ py ''...''"

definition web_search :: "env \<Rightarrow> json \<Rightarrow> event list \<times> pystr" where
  "web_search e query =
     (case configured (TAVILY_API_KEY e) of
        None \<Rightarrow> ([], search_unavailable)
      | Some key \<Rightarrow>
          ([TavilySearch key query 3],
           case tavily_search e key query 3 of
             SearchRaises msg \<Rightarrow> search_error msg
           | SearchResponse response \<Rightarrow>
               (let results = map result_line (case response of None \<Rightarrow> [] | Some rs \<Rightarrow> rs)
                in if results \<noteq> [] then join [10] results else no_results)))"

section \<open>analyze_with_gemini\<close>

definition no_description :: pystr where
  "no_description = py ''(sem descri'' @ [231, 227] @ py ''o)''"

definition analysis_prompt :: "pystr \<Rightarrow> pystr \<Rightarrow> prompt" where
  "analysis_prompt issue_title issue_body =
     AnalysisPrompt issue_title (if issue_body \<noteq> [] then issue_body else no_description)"

definition fence :: pystr where
  "fence = [96, 96, 96]"

text \<open>
  The removal of a Markdown fence: the text between the first and the second fence
  marker, without a leading \<open>json\<close>.
\<close>

definition strip_fence :: "pystr \<Rightarrow> py_error + pystr" where
  "strip_fence text =
     (if startswith text fence
      then (case index (split text fence) 1 of
              Inl err \<Rightarrow> Inl err
            | Inr part \<Rightarrow> Inr (if startswith part (py ''json'') then drop 4 part else part))
      else Inr text)"

text \<open>
  What both model responses go through before \<open>json.loads\<close>, written twice in the source:
  \<open>strip\<close>, the removal of the fence, \<open>strip\<close>.
\<close>

definition clean_response :: "pystr \<Rightarrow> py_error + pystr" where
  "clean_response text =
     (case strip_fence (strip text) of
        Inl err \<Rightarrow> Inl err
      | Inr unfenced \<Rightarrow> Inr (strip unfenced))"

definition fallback :: "pystr \<Rightarrow> pydict" where
  "fallback response_text =
     [(py ''summary'', JString (take 500 response_text)),
      (py ''classification'', JString (py ''other'')),
      (py ''priority'', JString (py ''medium'')),
      (py ''suggestions'', JArray [JString (py ''Revisar a issue manualmente'')]),
      (py ''needs_research'', JBool False),
      (py ''research_query'', JNull)]"

text \<open>
  The \<open>try\<close> block after the second model call; its bare \<open>except\<close> keeps the analysis as it
  is whatever is raised inside (no text, any exception of \<open>json.loads\<close>, a JSON value
  without \<open>.get\<close>).
\<close>

definition enrich :: "env \<Rightarrow> pydict \<Rightarrow> gen_response \<Rightarrow> pydict" where
  "enrich e analysis enrichment_response =
     (case enrichment_response of
        Text t \<Rightarrow>
          (case clean_response t of
             Inl err \<Rightarrow> analysis
           | Inr enrichment_text \<Rightarrow>
               (case json_loads e enrichment_text of
                  Parsed (JObject enriched) \<Rightarrow>
                    (case getitem analysis (py ''suggestions'') of
                       Inl err \<Rightarrow> analysis
                     | Inr original \<Rightarrow>
                         setitem analysis (py ''suggestions'')
                           (dict_get_default enriched (py ''suggestions'') original))
                | _ \<Rightarrow> analysis))
      | _ \<Rightarrow> analysis)"

text \<open>The body of \<open>if analysis.get("needs_research") and analysis.get("research_query")\<close>.\<close>

definition research :: "env \<Rightarrow> pystr \<Rightarrow> pydict \<Rightarrow> event list \<times> (py_error + pydict)" where
  "research e issue_title analysis0 =
     (case getitem analysis0 (py ''research_query'') of
        Inl err \<Rightarrow> ([], Inl err)
      | Inr query \<Rightarrow>
          (let (searched, search_results) = web_search e query;
               analysis = setitem analysis0 (py ''search_results'') (JString search_results)
           in case getitem analysis (py ''research_query'') of
                Inl err \<Rightarrow> (searched, Inl err)
              | Inr q \<Rightarrow>
                  (case getitem analysis (py ''suggestions'') of
                     Inl err \<Rightarrow> (searched, Inl err)
                   | Inr suggestions \<Rightarrow>
                       (let enrichment_prompt =
                              EnrichmentPrompt issue_title q search_results suggestions;
                            called = searched @ [GenerateContent enrichment_prompt]
                        in case generate_content e enrichment_prompt of
                             GenRaises \<Rightarrow> (called, Inl ApiError)
                           | enrichment_response \<Rightarrow>
                               (called, Inr (enrich e analysis enrichment_response))))))"

text \<open>
  The first parse is guarded by \<open>except json.JSONDecodeError\<close> only: that exception gives
  the fallback, any other exception of \<open>json.loads\<close> leaves the function.
\<close>

definition analyze_with_gemini ::
  "env \<Rightarrow> pystr \<Rightarrow> pystr \<Rightarrow> event list \<times> (py_error + pydict)" where
  "analyze_with_gemini e issue_title issue_body =
     (let p = analysis_prompt issue_title issue_body
      in case generate_content e p of
           GenRaises \<Rightarrow> ([GenerateContent p], Inl ApiError)
         | NoText \<Rightarrow> ([GenerateContent p], Inl ValueError)
         | Text t \<Rightarrow>
             (case clean_response t of
                Inl err \<Rightarrow> ([GenerateContent p], Inl err)
              | Inr response_text \<Rightarrow>
                  (case (case json_loads e response_text of
                           Parsed v \<Rightarrow> Inr v
                         | JSONDecodeError \<Rightarrow> Inr (JObject (fallback response_text))
                         | LoadsRaises err \<Rightarrow> Inl err) of
                     Inl err \<Rightarrow> ([GenerateContent p], Inl err)
                   | Inr analysis \<Rightarrow>
                       (case analysis of
                          JObject d \<Rightarrow>
                            if truthy (dict_get d (py ''needs_research''))
                               \<and> truthy (dict_get d (py ''research_query''))
                            then (let (events, r) = research e issue_title d
                                  in (GenerateContent p # events, r))
                            else ([GenerateContent p], Inr d)
                        | _ \<Rightarrow> ([GenerateContent p], Inl AttributeError)))))"

section \<open>send_to_slack\<close>

definition class_emoji :: "(pystr \<times> pystr) list" where
  "class_emoji =
     [(py ''bug'', py '':bug:''),
      (py ''feature'', py '':sparkles:''),
      (py ''question'', py '':question:''),
      (py ''documentation'', py '':books:''),
      (py ''other'', py '':memo:'')]"

definition priority_emoji :: "(pystr \<times> pystr) list" where
  "priority_emoji =
     [(py ''low'', py '':white_circle:''),
      (py ''medium'', py '':large_yellow_circle:''),
      (py ''high'', py '':large_orange_circle:''),
      (py ''critical'', py '':red_circle:'')]"

text \<open>
  \<open>table.get(key, default)\<close> on a dict with string keys, for any key: a \<open>list\<close> or a
  \<open>dict\<close> is unhashable, and no other value equals a string.
\<close>

definition table_get :: "(pystr \<times> pystr) list \<Rightarrow> json \<Rightarrow> pystr \<Rightarrow> py_error + pystr" where
  "table_get table key dflt =
     (case key of
        JString s \<Rightarrow> Inr (case map_of table s of None \<Rightarrow> dflt | Some v \<Rightarrow> v)
      | JArray xs \<Rightarrow> Inl TypeError
      | JObject kvs \<Rightarrow> Inl TypeError
      | _ \<Rightarrow> Inr dflt)"

text \<open>\<open>for s in v\<close>: the items of a list, the characters of a string, the keys of a dict.\<close>

definition iterate :: "json \<Rightarrow> py_error + json list" where
  "iterate v =
     (case v of
        JArray xs \<Rightarrow> Inr xs
      | JString s \<Rightarrow> Inr (map (\<lambda>c. JString [c]) s)
      | JObject kvs \<Rightarrow> Inr (map (\<lambda>kv. JString (fst kv)) kvs)
      | _ \<Rightarrow> Inl TypeError)"

text \<open>\<open>xs.insert(i, x)\<close>: a negative index counts from the end, and is clamped.\<close>

definition list_insert :: "'a list \<Rightarrow> int \<Rightarrow> 'a \<Rightarrow> 'a list" where
  "list_insert xs i x =
     (let n = int (length xs);
          j = nat (if i < 0 then max 0 (i + n) else min i n)
      in take j xs @ [x] @ drop j xs)"

definition mention :: "env \<Rightarrow> pystr" where
  "mention e =
     (case map_of (USER_MAPPING e) (ASSIGNEE_USERNAME e) of
        None \<Rightarrow> py ''@'' @ ASSIGNEE_USERNAME e
      | Some slack_user_id \<Rightarrow>
          if slack_user_id \<noteq> [] then py ''<@'' @ slack_user_id @ py ''>''
          else py ''@'' @ ASSIGNEE_USERNAME e)"

definition footer :: "env \<Rightarrow> block" where
  "footer e =
     Context [Mrkdwn (py ''Criada por: '' @ ISSUE_AUTHOR e @ py '' | An'' @ [225]
                        @ py ''lise por: Gemini 2.0 Flash'')]"

definition research_note :: block where
  "research_note =
     Context [Mrkdwn ([128269] @ py '' _Pesquisa web realizada para complementar a an'' @ [225]
                        @ py ''lise_'')]"

text \<open>The message as it is when it is posted: the literal, then the conditional insert.\<close>

definition slack_message :: "env \<Rightarrow> pydict \<Rightarrow> py_error + block list" where
  "slack_message e analysis =
     (let classification = dict_get_default analysis (py ''classification'') (JString (py ''other''));
          priority = dict_get_default analysis (py ''priority'') (JString (py ''medium''))
      in case iterate (dict_get_default analysis (py ''suggestions'') (JArray [])) of
           Inl err \<Rightarrow> Inl err
         | Inr items \<Rightarrow>
             (let suggestions_text = join [10] (map (\<lambda>s. [8226, 32] @ fmt e s) items)
              in case table_get class_emoji classification (py '':memo:'') of
                   Inl err \<Rightarrow> Inl err
                 | Inr c_emoji \<Rightarrow>
                     (case table_get priority_emoji priority (py '':white_circle:'') of
                        Inl err \<Rightarrow> Inl err
                      | Inr p_emoji \<Rightarrow>
                          (let blocks =
                             [Header (PlainText ([128203] @ py '' Nova Issue #'' @ ISSUE_NUMBER e) True),
                              SectionFields
                                [Mrkdwn (py ''*Reposit'' @ [243] @ py ''rio:*'' @ [10] @ REPO_NAME e),
                                 Mrkdwn (py ''*Atribu'' @ [237] @ py ''da para:*'' @ [10] @ mention e)],
                              SectionFields
                                [Mrkdwn (py ''*Tipo:*'' @ [10] @ c_emoji @ py '' ''
                                           @ fmt e classification),
                                 Mrkdwn (py ''*Prioridade:*'' @ [10] @ p_emoji @ py '' ''
                                           @ fmt e priority)],
                              SectionText
                                (Mrkdwn (py ''*T'' @ [237] @ py ''tulo:*'' @ [10] @ py ''<'' @ ISSUE_URL e
                                           @ py ''|'' @ ISSUE_TITLE e @ py ''>'')),
                              SectionText
                                (Mrkdwn (py ''*'' @ [128221] @ py '' Resumo da IA:*'' @ [10]
                                           @ fmt e (dict_get_default analysis (py ''summary'')
                                                      (JString (py ''N/A''))))),
                              SectionText
                                (Mrkdwn (py ''*'' @ [128161] @ py '' Sugest'' @ [245] @ py ''es:*'' @ [10]
                                           @ suggestions_text)),
                              Divider,
                              footer e]
                           in Inr (if truthy (dict_get analysis (py ''search_results''))
                                   then list_insert blocks (- 1) research_note
                                   else blocks)))))"





section \<open>Fenced responses and sample runs\<close>

text \<open>
  A response text wrapped in fence markers: \<open>lang\<close> is empty or \<open>json\<close>, and \<open>pad\<close> is
  empty (markers directly around the text) or a newline (markers on lines of their own).
\<close>

definition fenced :: "pystr \<Rightarrow> pystr \<Rightarrow> pystr \<Rightarrow> pystr" where
  "fenced lang pad t = fence @ lang @ pad @ t @ pad @ fence"



text \<open>A suggestions entry, when there is one, is a list of at most three items.\<close>

definition capped :: "pydict \<Rightarrow> bool" where
  "capped d =
     (case map_of d (py ''suggestions'') of
        None \<Rightarrow> True
      | Some (JArray xs) \<Rightarrow> length xs \<le> 3
      | Some _ \<Rightarrow> False)"

text \<open>
  The JSON object in the model's response to a prompt, when the response is one; and the
  objects the model returned in a run, read off the model calls among its events.
\<close>

definition returned_object :: "env \<Rightarrow> prompt \<Rightarrow> pydict option" where
  "returned_object e p =
     (case generate_content e p of
        Text t \<Rightarrow>
          (case clean_response t of
             Inl err \<Rightarrow> None
           | Inr r \<Rightarrow> (case json_loads e r of Parsed (JObject d) \<Rightarrow> Some d | _ \<Rightarrow> None))
      | _ \<Rightarrow> None)"

definition returned_objects :: "env \<Rightarrow> event list \<Rightarrow> pydict list" where
  "returned_objects e events =
     List.map_filter (\<lambda>ev. case ev of GenerateContent p \<Rightarrow> returned_object e p | _ \<Rightarrow> None) events"

text \<open>
  The suggestions entry the model supplied in a run: that of the last returned object
  that has one.
\<close>

definition supplied :: "pydict list \<Rightarrow> json option" where
  "supplied objects =
     (let having = filter (\<lambda>d. map_of d (py ''suggestions'') \<noteq> None) objects
      in if having = [] then None else map_of (last having) (py ''suggestions''))"




text \<open>
  Some JSON documents and the values \<open>json.loads\<close> returns for them. On a thousand
  opening brackets \<open>json.loads\<close> raises \<open>RecursionError\<close>; on the other texts used below
  (plain words, \<open>json{}\<close>, a document cut in the middle of a string) it raises
  \<open>JSONDecodeError\<close>.
\<close>

definition doc_research :: pystr where
  \<open>doc_research =
     py ''{"summary": "s", "classification": "bug", "priority": "high", "suggestions": ["a"], "needs_research": true, "research_query": "q"}''\<close>

definition parsed_research :: pydict where
  "parsed_research =
     [(py ''summary'', JString (py ''s'')),
      (py ''classification'', JString (py ''bug'')),
      (py ''priority'', JString (py ''high'')),
      (py ''suggestions'', JArray [JString (py ''a'')]),
      (py ''needs_research'', JBool True),
      (py ''research_query'', JString (py ''q''))]"

definition doc_ticks :: pystr where
  \<open>doc_ticks = py ''{"summary": "a```b"}''\<close>

definition doc_cut :: pystr where
  \<open>doc_cut = py ''{"summary": "a''\<close>

definition doc_many :: pystr where
  \<open>doc_many = py ''{"suggestions": ["a", "b", "c", "d"]}''\<close>

definition doc_flag :: pystr where
  \<open>doc_flag = py ''{"needs_research": true, "research_query": null}''\<close>

definition doc_bare :: pystr where
  \<open>doc_bare = py ''{"needs_research": true, "research_query": "q"}''\<close>

definition doc_null :: pystr where
  \<open>doc_null = py ''{"suggestions": null}''\<close>

definition doc_refined :: pystr where
  \<open>doc_refined = py ''{"suggestions": ["x"]}''\<close>

definition deep :: pystr where
  "deep = replicate 1000 91"

definition documents :: "(pystr \<times> json) list" where
  "documents =
     [(py ''[]'', JArray []),
      (py ''{}'', JObject []),
      (doc_ticks, JObject [(py ''summary'', JString (py ''a'' @ fence @ py ''b''))]),
      (doc_many,
         JObject [(py ''suggestions'',
                   JArray [JString (py ''a''), JString (py ''b''), JString (py ''c''),
                           JString (py ''d'')])]),
      (doc_flag, JObject [(py ''needs_research'', JBool True), (py ''research_query'', JNull)]),
      (doc_bare,
         JObject [(py ''needs_research'', JBool True), (py ''research_query'', JString (py ''q''))]),
      (doc_null, JObject [(py ''suggestions'', JNull)]),
      (doc_research, JObject parsed_research),
      (doc_refined, JObject [(py ''suggestions'', JArray [JString (py ''x'')])])]"

definition sample_loads :: "pystr \<Rightarrow> loads_outcome" where
  "sample_loads s =
     (case map_of documents s of
        Some v \<Rightarrow> Parsed v
      | None \<Rightarrow> if s = deep then LoadsRaises RecursionError else JSONDecodeError)"

text \<open>
  A run without credentials in which the model answers the analysis prompt with \<open>first\<close>
  and an enrichment prompt with \<open>second\<close>.
\<close>

definition replying :: "pystr \<Rightarrow> pystr \<Rightarrow> env" where
  "replying first second =
     \<lparr>SLACK_WEBHOOK_URL = None,
      TAVILY_API_KEY = None,
      ISSUE_TITLE = py ''Crash on startup'',
      ISSUE_NUMBER = py ''7'',
      ISSUE_URL = py ''https://example.org/issues/7'',
      ISSUE_AUTHOR = py ''alice'',
      ASSIGNEE_USERNAME = py ''bob'',
      REPO_NAME = py ''demo'',
      USER_MAPPING = [],
      json_loads = sample_loads,
      generate_content =
        (\<lambda>p. case p of AnalysisPrompt title body \<Rightarrow> Text first
                       | EnrichmentPrompt title q found suggestions \<Rightarrow> Text second),
      tavily_search = (\<lambda>key query n. SearchRaises (py ''timeout'')),
      requests_post = (\<lambda>url blocks. HTTPError (py ''500 Server Error'')),
      py_str = (\<lambda>v. py ''?'')\<rparr>"

text \<open>A search response with two results.\<close>

definition found :: "(pystr \<times> pystr) list" where
  "found = [(py ''Release notes'', py ''NumPy 2.0 removes aliases''), (py ''Guide'', py ''Migration'')]"

text \<open>
  The same run with a webhook, the same run with a search credential, and an analysis
  to which search results were attached.
\<close>

definition hooked :: env where
  "hooked = (replying [] [])\<lparr>SLACK_WEBHOOK_URL := Some (py ''https://hooks.example/T0'')\<rparr>"

definition keyed :: "pystr \<Rightarrow> env" where
  "keyed first = (replying first [])\<lparr>TAVILY_API_KEY := Some (py ''key'')\<rparr>"

definition researched :: pydict where
  "researched = setitem parsed_research (py ''search_results'') (JString search_unavailable)"

section \<open>Strings: splitting and stripping\<close>


lemma py_json: "py ''json'' = [106, 115, 111, 110]"
  by (simp add: py_def)

lemma split_from_fence:
  "split_from fence acc (fence @ s) = rev acc # split_from fence [] s"
  by (simp add: fence_def)

lemma split_from_skip:
  "96 \<notin> set pre \<Longrightarrow> split_from fence acc (pre @ fence @ s) = (rev acc @ pre) # split_from fence [] s"
proof (induction pre arbitrary: acc)
  case Nil
  then show ?case by (simp add: split_from_fence)
next
  case (Cons x pre)
  then have "\<not> prefix fence (x # pre @ fence @ s)" by (auto simp: fence_def)
  with Cons show ?case by simp
qed


lemma prefix_fence_cases:
  "prefix fence (x # w @ fence @ s) \<Longrightarrow> x = 96 \<and> (w = [] \<or> w = [96] \<or> prefix [96, 96] w)"
  by (cases w; cases "tl w") (auto simp: fence_def)

lemma not_prefix_fence:
  assumes "\<not> sublist fence (x # t)" "96 \<notin> set post" "\<not> suffix [96] ((x # t) @ post)"
  shows "\<not> prefix fence (x # t @ post @ fence @ s)"
proof
  assume "prefix fence (x # t @ post @ fence @ s)"
  then have x: "x = 96" and w: "t @ post = [] \<or> t @ post = [96] \<or> prefix [96, 96] (t @ post)"
    using prefix_fence_cases [of x "t @ post" s] by simp_all
  from w show False
  proof (elim disjE)
    assume "t @ post = []"
    with x assms(3) show False by (simp add: suffix_def)
  next
    assume "t @ post = [96]"
    with x assms(3) show False by (simp add: suffix_def)
  next
    assume p: "prefix [96, 96] (t @ post)"
    have "prefix fence (x # t)"
      using p x assms(2) by (cases t; cases "tl t"; cases post) (auto simp: fence_def)
    with assms(1) show False by auto
  qed
qed

lemma split_from_wrapped:
  assumes "96 \<notin> set pre" "\<not> sublist fence t" "96 \<notin> set post" "\<not> suffix [96] (t @ post)"
  shows "split_from fence acc (pre @ t @ post @ fence @ s) = (rev acc @ pre @ t @ post) # split_from fence [] s"
  using assms
proof (induction pre arbitrary: acc)
  case Nil
  have "split_from fence acc (t @ post @ fence @ s) = (rev acc @ t @ post) # split_from fence [] s"
    using Nil.prems(2-4)
  proof (induction t arbitrary: acc)
    case Nil
    then show ?case by (simp add: split_from_skip)
  next
    case (Cons x t)
    have np: "\<not> prefix fence (x # t @ post @ fence @ s)"
      using Cons.prems by (rule not_prefix_fence)
    have 1: "\<not> sublist fence t" using Cons.prems(1) by (auto simp: sublist_Cons_right)
    have 2: "\<not> suffix [96] (t @ post)" using Cons.prems(3) by (auto simp: suffix_Cons)
    from np have "split_from fence acc ((x # t) @ post @ fence @ s)
        = split_from fence (x # acc) (t @ post @ fence @ s)"
      by simp
    also have "\<dots> = (rev (x # acc) @ t @ post) # split_from fence [] s"
      using 1 Cons.prems(2) 2 by (rule Cons.IH)
    finally show ?case by simp
  qed
  then show ?case by simp
next
  case (Cons x pre)
  then have "\<not> prefix fence (x # pre @ t @ post @ fence @ s)" by (auto simp: fence_def)
  with Cons show ?case by simp
qed

lemma split_from_nonempty: "split_from sep acc s \<noteq> []"
  by (induction sep acc s rule: split_from.induct) auto

lemma strip_fence_total: "\<exists>u. strip_fence s = Inr u"
proof (cases "startswith s fence")
  case True
  then obtain r where "s = fence @ r" by (auto simp: startswith_def prefix_def)
  then have "split s fence = [] # split_from fence [] r"
    by (simp add: split_def split_from_fence)
  moreover obtain x xs where "split_from fence [] r = x # xs"
    using split_from_nonempty by (cases "split_from fence [] r") auto
  ultimately show ?thesis using True by (simp add: strip_fence_def index_def)
next
  case False
  then show ?thesis by (simp add: strip_fence_def)
qed

lemma clean_response_total: "\<exists>r. clean_response t = Inr r"
  using strip_fence_total [of "strip t"] by (auto simp: clean_response_def)

lemma dropWhile_id: "xs = [] \<or> \<not> P (hd xs) \<Longrightarrow> dropWhile P xs = xs"
  by (cases xs) auto

lemma strip_decomp: "\<exists>a b. t = a @ strip t @ b \<and> (\<forall>c\<in>set a. isspace c) \<and> (\<forall>c\<in>set b. isspace c)"
proof -
  let ?r = "dropWhile isspace t"
  have 1: "t = takeWhile isspace t @ ?r" by simp
  have "rev ?r = takeWhile isspace (rev ?r) @ dropWhile isspace (rev ?r)" by simp
  then have "?r = rev (dropWhile isspace (rev ?r)) @ rev (takeWhile isspace (rev ?r))"
    by (metis rev_append rev_rev_ident)
  then have 2: "?r = strip t @ rev (takeWhile isspace (rev ?r))" by (simp add: strip_def)
  have "t = takeWhile isspace t @ strip t @ rev (takeWhile isspace (rev ?r))"
    using 1 2 by metis
  moreover have "\<forall>c\<in>set (takeWhile isspace t). isspace c" by (auto dest: set_takeWhileD)
  moreover have "\<forall>c\<in>set (rev (takeWhile isspace (rev ?r))). isspace c" by (auto dest: set_takeWhileD)
  ultimately show ?thesis by blast
qed

lemma strip_ends:
  assumes "s \<noteq> []" "\<not> isspace (hd s)" "\<not> isspace (last s)"
  shows "strip s = s"
proof -
  have "dropWhile isspace s = s" using assms by (simp add: dropWhile_id)
  moreover have "dropWhile isspace (rev s) = rev s"
    using assms by (intro dropWhile_id) (simp add: hd_rev)
  ultimately show ?thesis by (simp add: strip_def)
qed

lemma rstrip_pad:
  assumes "\<forall>c\<in>set b. P c"
  shows "rev (dropWhile P (rev (xs @ b))) = rev (dropWhile P (rev xs))"
proof -
  have "dropWhile P (rev b @ rev xs) = dropWhile P (rev xs)"
    using assms by (intro dropWhile_append2) auto
  then show ?thesis by simp
qed

lemma strip_pad:
  assumes a: "\<forall>c\<in>set a. isspace c" and b: "\<forall>c\<in>set b. isspace c"
  shows "strip (a @ s @ b) = strip s"
proof -
  have 1: "dropWhile isspace (a @ s @ b) = dropWhile isspace (s @ b)"
    using a by simp
  show ?thesis
  proof (cases "\<forall>c\<in>set s. isspace c")
    case True
    then have 2: "dropWhile isspace (s @ b) = []" and 3: "dropWhile isspace s = []"
      using b by (simp_all add: ball_Un)
    show ?thesis unfolding strip_def 1 2 3 ..
  next
    case False
    then obtain x where "x \<in> set s" "\<not> isspace x" by blast
    then have "dropWhile isspace (s @ b) = dropWhile isspace s @ b"
      by (rule dropWhile_append1)
    with 1 show ?thesis using rstrip_pad [OF b] by (simp add: strip_def)
  qed
qed

lemma strip_strip: "strip (strip s) = strip s"
proof (cases "strip s = []")
  case True
  have "strip [] = []" by (simp add: strip_def)
  with True show ?thesis by simp
next
  case False
  let ?r = "dropWhile isspace s"
  let ?d = "dropWhile isspace (rev ?r)"
  have s: "strip s = rev ?d" by (simp add: strip_def)
  with False have d: "?d \<noteq> []" by simp
  then have "\<not> isspace (hd ?d)" by (rule hd_dropWhile)
  then have l: "\<not> isspace (last (strip s))" using d by (simp add: s last_rev)
  from d have r: "?r \<noteq> []" by (metis dropWhile.simps(1) rev.simps(1))
  then have hr: "\<not> isspace (hd ?r)" by (rule hd_dropWhile)
  have "rev ?r = takeWhile isspace (rev ?r) @ ?d" by simp
  then have "?r = rev ?d @ rev (takeWhile isspace (rev ?r))"
    by (metis rev_append rev_rev_ident)
  then have "hd ?r = hd (rev ?d)" using d by (metis hd_append2 rev_is_Nil_conv)
  with hr have "\<not> isspace (hd (strip s))" by (simp add: s)
  with False show ?thesis using l by (rule strip_ends)
qed

lemma strip_sublist: "sublist (strip t) t"
  using strip_decomp [of t] by (auto simp: sublist_def)


lemma not_isspace_json: "\<not> isspace 96" "\<not> isspace 106"
  by (simp_all add: isspace_def)

lemma clean_response_plain:
  assumes "\<not> sublist fence t"
  shows "clean_response t = Inr (strip t)"
proof -
  have "\<not> prefix fence (strip t)"
    using assms strip_sublist [of t] by (meson prefix_imp_sublist sublist_order.order.trans)
  then show ?thesis by (simp add: clean_response_def strip_fence_def startswith_def strip_strip)
qed

lemma clean_response_fenced:
  assumes t: "\<not> sublist fence t"
    and lang: "lang = [] \<or> lang = py ''json''"
    and pad: "pad = [] \<or> pad = [10]"
    and tick: "pad = [] \<longrightarrow> \<not> suffix [96] t"
    and json: "lang = [] \<and> pad = [] \<longrightarrow> \<not> startswith t (py ''json'')"
  shows "clean_response (fenced lang pad t) = Inr (strip t)"
proof -
  let ?w = "fenced lang pad t"
  have w: "?w = fence @ (lang @ pad) @ t @ pad @ fence @ []" by (simp add: fenced_def)
  have "strip ?w = ?w"
    by (rule strip_ends) (simp_all add: fenced_def fence_def isspace_def)
  moreover have "startswith ?w fence" by (simp add: fenced_def startswith_def)
  moreover have "split ?w fence = [[], lang @ pad @ t @ pad, []]"
  proof -
    have 1: "96 \<notin> set (lang @ pad)" using lang pad by (auto simp: py_json)
    have 2: "96 \<notin> set pad" using pad by auto
    have 3: "\<not> suffix [96] (t @ pad)" using pad tick by (auto simp: suffix_def)
    show ?thesis unfolding split_def w split_from_fence
      using split_from_wrapped [OF 1 t 2 3, of "[]" "[]"] by simp
  qed
  ultimately have "strip_fence (strip ?w) =
      Inr (if startswith (lang @ pad @ t @ pad) (py ''json'') then drop 4 (lang @ pad @ t @ pad)
           else lang @ pad @ t @ pad)"
    by (simp add: strip_fence_def index_def)
  moreover have "(if startswith (lang @ pad @ t @ pad) (py ''json'') then drop 4 (lang @ pad @ t @ pad)
           else lang @ pad @ t @ pad) = pad @ t @ pad"
    using lang pad json by (auto simp: py_json startswith_def)
  moreover have "strip (pad @ t @ pad) = strip t"
  proof -
    have "\<forall>c\<in>set pad. isspace c"
      using pad by (elim disjE) (simp_all add: isspace_def)
    then show ?thesis by (intro strip_pad)
  qed
  ultimately show ?thesis by (simp add: clean_response_def)
qed

subsection \<open>Literals\<close>

lemma py_eq_iff [simp]: "py a = py b \<longleftrightarrow> a = b"
  by (simp add: py_def inj_map_eq_map [OF inj_of_char])

lemma py_Nil [simp]: "py [] = []" "py s = [] \<longleftrightarrow> s = []" "[] = py s \<longleftrightarrow> s = []"
  by (auto simp: py_def)

lemma length_py [simp]: "length (py s) = length s"
  by (simp add: py_def)

lemma tick_in_py: "96 \<in> set (py s) \<Longrightarrow> CHR 0x60 \<in> set s"
proof -
  assume "96 \<in> set (py s)"
  then obtain c where c: "c \<in> set s" and "of_char c = (96::nat)" by (auto simp: py_def)
  then have "of_char c = (of_char (CHR 0x60) :: nat)" by simp
  then have "c = CHR 0x60" by (simp only: of_char_eq_iff)
  with c show ?thesis by simp
qed

lemma sublist_fence_tick: "sublist fence t \<Longrightarrow> 96 \<in> set t"
  by (auto simp: sublist_def fence_def)

lemma clean_response_py:
  assumes "CHR 0x60 \<notin> set s" "s \<noteq> []" "\<not> isspace (of_char (hd s))" "\<not> isspace (of_char (last s))"
  shows "clean_response (py s) = Inr (py s)"
proof -
  have "\<not> sublist fence (py s)" using assms(1) by (auto dest: sublist_fence_tick tick_in_py)
  moreover have "strip (py s) = py s"
    using assms(2-4) by (intro strip_ends) (simp_all add: py_def hd_map last_map)
  ultimately show ?thesis by (simp add: clean_response_plain)
qed

lemma last_deep: "deep \<noteq> []" "hd deep = 91" "last deep = 91" "96 \<notin> set deep"
  by (simp_all add: deep_def)

lemma not_deep [simp]:
  assumes "s \<noteq> []" "last s \<noteq> CHR 0x5B"
  shows "(py s = deep) = False" "(deep = py s) = False"
proof -
  have "last (py s) = of_char (last s)" using assms(1) by (simp add: py_def last_map)
  moreover have "of_char (last s) \<noteq> (of_char (CHR 0x5B) :: nat)"
    using assms(2) by (simp only: of_char_eq_iff not_False_eq_True)
  ultimately have "last (py s) \<noteq> last deep" by (simp add: last_deep)
  then show "(py s = deep) = False" "(deep = py s) = False" by auto
qed

lemmas sample_documents =
  sample_loads_def documents_def doc_ticks_def doc_cut_def doc_many_def doc_flag_def doc_bare_def
  doc_null_def doc_refined_def doc_research_def

section \<open>The Analyzer\<close>

lemma clean_deep: "clean_response deep = Inr deep"
proof -
  have "\<not> sublist fence deep" using last_deep(4) by (auto dest: sublist_fence_tick)
  moreover have "strip deep = deep"
    by (rule strip_ends) (simp_all add: last_deep isspace_def)
  ultimately show ?thesis by (simp add: clean_response_plain)
qed

lemma analyze_cases:
  assumes "generate_content e (analysis_prompt issue_title issue_body) = Text t"
    and "clean_response t = Inr r"
  shows "analyze_with_gemini e issue_title issue_body =
           (case json_loads e r of
              JSONDecodeError \<Rightarrow>
                ([GenerateContent (analysis_prompt issue_title issue_body)], Inr (fallback r))
            | LoadsRaises err \<Rightarrow>
                ([GenerateContent (analysis_prompt issue_title issue_body)], Inl err)
            | Parsed (JObject d) \<Rightarrow>
                if truthy (dict_get d (py ''needs_research'')) \<and> truthy (dict_get d (py ''research_query''))
                then (GenerateContent (analysis_prompt issue_title issue_body) # fst (research e issue_title d),
                      snd (research e issue_title d))
                else ([GenerateContent (analysis_prompt issue_title issue_body)], Inr d)
            | Parsed other \<Rightarrow>
                ([GenerateContent (analysis_prompt issue_title issue_body)], Inl AttributeError))"
proof (cases "json_loads e r")
  case JSONDecodeError
  with assms show ?thesis
    by (simp add: analyze_with_gemini_def fallback_def dict_get_def)
next
  case (LoadsRaises err)
  with assms show ?thesis by (simp add: analyze_with_gemini_def)
next
  case (Parsed v)
  with assms show ?thesis
    by (cases v) (simp_all add: analyze_with_gemini_def case_prod_beta Let_def)
qed

lemma replying_first:
  "generate_content (replying first second) (analysis_prompt (py ''Crash on startup'') []) = Text first"
  by (simp add: replying_def analysis_prompt_def)

lemma replying_loads: "json_loads (replying first second) = sample_loads"
  by (simp add: replying_def)

text \<open>
  When \<open>json.loads\<close> raises \<open>JSONDecodeError\<close> on the cleaned response, the result is the
  fallback: the first 500 characters of the text as summary, \<open>other\<close>, \<open>medium\<close>, the single
  suggestion, no research, and no query; one model call is made and nothing is raised.
\<close>

theorem fallback_on_decode_error:
  assumes "generate_content e (analysis_prompt issue_title issue_body) = Text t"
    and "clean_response t = Inr response_text"
    and "json_loads e response_text = JSONDecodeError"
  shows "analyze_with_gemini e issue_title issue_body =
           ([GenerateContent (analysis_prompt issue_title issue_body)],
            Inr [(py ''summary'', JString (take 500 response_text)),
                 (py ''classification'', JString (py ''other'')),
                 (py ''priority'', JString (py ''medium'')),
                 (py ''suggestions'', JArray [JString (py ''Revisar a issue manualmente'')]),
                 (py ''needs_research'', JBool False),
                 (py ''research_query'', JNull)])"
  using assms by (simp add: analyze_cases fallback_def)

text \<open>
  Claim C2. Whenever the cleaned response fails to parse, the fallback has to be returned
  without raising. The source guards the first parse with \<open>except json.JSONDecodeError\<close>
  only, where the parse of the second response is guarded by a bare \<open>except\<close>: on a response
  of a thousand opening brackets, which is not JSON, \<open>json.loads\<close> raises \<open>RecursionError\<close>
  and \<open>analyze_with_gemini\<close> raises it, after its one model call, instead of returning the
  fallback.
\<close>

theorem first_parse_error_escapes:
  "analyze_with_gemini (replying deep []) (py ''Crash on startup'') [] =
     ([GenerateContent (AnalysisPrompt (py ''Crash on startup'') no_description)],
      Inl RecursionError)"
proof -
  have "json_loads (replying deep []) deep = LoadsRaises RecursionError"
    by (simp add: replying_loads sample_documents)
  then show ?thesis
    by (simp add: analyze_cases [OF replying_first clean_deep] analysis_prompt_def)
qed

section \<open>The Researcher\<close>

text \<open>
  Claim C5. \<open>web_search\<close> always returns a string: its whole body after the credential
  test is inside \<open>try\<close> ... \<open>except Exception\<close>, so the model has no error result. For
  every query, without a credential (unset or empty) it returns the fixed message and
  makes no call (the event list is empty); and when the search call raises, it returns
  \<open>Erro na pesquisa: \<close> followed by the text of the exception.
\<close>

theorem web_search_never_raises:
  "(configured (TAVILY_API_KEY e) = None \<longrightarrow> web_search e query = ([], search_unavailable)) \<and>
   (\<forall>key msg. configured (TAVILY_API_KEY e) = Some key \<longrightarrow>
        tavily_search e key query 3 = SearchRaises msg \<longrightarrow>
        web_search e query = ([TavilySearch key query 3], py ''Erro na pesquisa: '' @ msg))"
  by (simp add: web_search_def search_error_def)

theorem web_search_never_raises_witness:
  "web_search (replying [] []) (JString (py ''numpy 2.0'')) = ([], search_unavailable) \<and>
   web_search ((replying [] [])\<lparr>TAVILY_API_KEY := Some (py ''key'')\<rparr>) (JString (py ''numpy 2.0'')) =
     ([TavilySearch (py ''key'') (JString (py ''numpy 2.0'')) 3], py ''Erro na pesquisa: '' @ py ''timeout'')"
proof -
  let ?e = "(replying [] [])\<lparr>TAVILY_API_KEY := Some (py ''key'')\<rparr>"
  have 1: "configured (TAVILY_API_KEY (replying [] [])) = None"
    by (simp add: replying_def configured_def)
  have 2: "configured (TAVILY_API_KEY ?e) = Some (py ''key'')"
    by (simp add: configured_def)
  have 3: "tavily_search ?e (py ''key'') (JString (py ''numpy 2.0'')) 3 = SearchRaises (py ''timeout'')"
    by (simp add: replying_def)
  show ?thesis
    using web_search_never_raises [of "replying [] []" "JString (py ''numpy 2.0'')"]
      web_search_never_raises [of ?e "JString (py ''numpy 2.0'')"] 1 2 3
    by simp
qed

text \<open>
  Claim C6. With a credential, \<open>web_search\<close> makes exactly one search request, with
  \<open>max_results = 3\<close>. When the response has no results (an empty list, or no \<open>results\<close>
  entry) it returns the fixed no-results string; otherwise it returns one line per
  result, \<open>- title: \<close> then the first 200 characters of the content then three
  dots, the lines joined by newlines.
\<close>

theorem web_search_formats_results:
  assumes "configured (TAVILY_API_KEY e) = Some key"
    and "tavily_search e key query 3 = SearchResponse response"
    and "results = (case response of None \<Rightarrow> [] | Some rs \<Rightarrow> rs)"
  shows "web_search e query =
           ([TavilySearch key query 3],
            if results = [] then py ''Nenhum resultado encontrado''
            else join [10] (map (\<lambda>(title, content).
                                   py ''- '' @ title @ py '': '' @ take 200 content @ py ''...'')
                             results))"
proof -
  have "result_line = (\<lambda>(title, content).
           py ''- '' @ title @ py '': '' @ take 200 content @ py ''...'')"
    by (simp add: fun_eq_iff result_line_def)
  with assms show ?thesis by (simp add: web_search_def no_results_def)
qed

theorem web_search_formats_results_witness:
  "web_search ((replying [] [])\<lparr>TAVILY_API_KEY := Some (py ''key''),
                                 tavily_search := (\<lambda>key query n. SearchResponse (Some found))\<rparr>)
     (JString (py ''numpy 2.0'')) =
     ([TavilySearch (py ''key'') (JString (py ''numpy 2.0'')) 3],
      py ''- Release notes: NumPy 2.0 removes aliases...'' @ [10] @ py ''- Guide: Migration...'')"
proof -
  let ?e = "(replying [] [])\<lparr>TAVILY_API_KEY := Some (py ''key''),
                                 tavily_search := (\<lambda>key query n. SearchResponse (Some found))\<rparr>"
  have 1: "configured (TAVILY_API_KEY ?e) = Some (py ''key'')"
    by (simp add: configured_def)
  have 2: "tavily_search ?e (py ''key'') (JString (py ''numpy 2.0'')) 3 = SearchResponse (Some found)"
    by simp
  have 3: "found = (case Some found of None \<Rightarrow> [] | Some rs \<Rightarrow> rs)"
    by simp
  show ?thesis
    using web_search_formats_results [OF 1 2 3] by (simp add: found_def py_def)
qed

section \<open>The Notifier\<close>

lemma map_of_setitem [simp]: "map_of (setitem d k v) = (map_of d)(k \<mapsto> v)"
  by (simp add: setitem_def update_conv')

lemma slack_message_builds:
  assumes "dict_get_default a (py ''classification'') (JString (py ''other'')) = JString c"
    and "dict_get_default a (py ''priority'') (JString (py ''medium'')) = JString p"
    and "dict_get_default a (py ''suggestions'') (JArray []) = JArray xs"
  shows "\<exists>blocks. slack_message e a = Inr blocks"
  using assms by (simp add: slack_message_def iterate_def table_get_def Let_def)







text \<open>
  Claim C9. Whenever \<open>send_to_slack\<close> builds its message, the blocks are the fixed
  sequence header, two field sections, three text sections, divider and, last, the
  footer context block. The note on the web research is present exactly when the
  analysis carries search results (a truthy \<open>search_results\<close> entry, which is what the
  source tests), it stands immediately before the footer, and attaching search results
  to an analysis changes no other block.
\<close>

theorem research_note_before_footer:
  assumes "slack_message e analysis = Inr blocks"
  shows "\<exists>header repo kind title summary suggestions.
           blocks =
             [Header header, SectionFields repo, SectionFields kind, SectionText title,
              SectionText summary, SectionText suggestions, Divider]
             @ (if truthy (dict_get analysis (py ''search_results'')) then [research_note] else [])
             @ [footer e]
           \<and> (\<forall>found. slack_message e (setitem analysis (py ''search_results'') found) =
                 Inr ([Header header, SectionFields repo, SectionFields kind, SectionText title,
                       SectionText summary, SectionText suggestions, Divider]
                      @ (if truthy found then [research_note] else [])
                      @ [footer e]))"
proof -
  let ?sug = "dict_get_default analysis (py ''suggestions'') (JArray [])"
  let ?cls = "dict_get_default analysis (py ''classification'') (JString (py ''other''))"
  let ?pri = "dict_get_default analysis (py ''priority'') (JString (py ''medium''))"
  from assms obtain items c p where built:
    "iterate ?sug = Inr items"
    "table_get class_emoji ?cls (py '':memo:'') = Inr c"
    "table_get priority_emoji ?pri (py '':white_circle:'') = Inr p"
    by (auto simp: slack_message_def Let_def split: sum.splits)
  have insert: "list_insert [b1, b2, b3, b4, b5, b6, b7, b8] (- 1) x = [b1, b2, b3, b4, b5, b6, b7, x, b8]"
    for b1 b2 b3 b4 b5 b6 b7 b8 x :: block
    by (simp add: list_insert_def)
  have other: "dict_get_default (setitem analysis (py ''search_results'') found) (py k) dflt
                 = dict_get_default analysis (py k) dflt"
    if "k \<noteq> ''search_results''" for k dflt found
    using that by (simp add: dict_get_default_def)
  have this_one: "dict_get (setitem analysis (py ''search_results'') found) (py ''search_results'') = found"
    for found
    by (simp add: dict_get_def)
  show ?thesis
  proof (cases "truthy (dict_get analysis (py ''search_results''))")
    case True
    with assms [symmetric] built show ?thesis
      by (simp add: slack_message_def Let_def insert other this_one)
  next
    case False
    with assms [symmetric] built show ?thesis
      by (simp add: slack_message_def Let_def insert other this_one)
  qed
qed

theorem research_note_before_footer_witness:
  "\<exists>header repo kind title summary suggestions.
     slack_message hooked researched =
       Inr [Header header, SectionFields repo, SectionFields kind, SectionText title,
            SectionText summary, SectionText suggestions, Divider, research_note, footer hooked]"
proof -
  obtain blocks where 1: "slack_message hooked researched = Inr blocks"
    using slack_message_builds [of researched "py ''bug''" "py ''high''" "[JString (py ''a'')]"]
    by (auto simp: researched_def parsed_research_def dict_get_default_def)
  have 2: "truthy (dict_get researched (py ''search_results''))"
    by (simp add: researched_def dict_get_def search_unavailable_def)
  show ?thesis
    using research_note_before_footer [OF 1] 1 2 by auto
qed

section \<open>The research stage\<close>

lemma gate_query:
  assumes "truthy (dict_get d k)"
  shows "getitem d k = Inr (dict_get d k)"
  using assms by (cases "map_of d k") (simp_all add: dict_get_def getitem_def)

lemma getitem_setitem_other: "k' \<noteq> k \<Longrightarrow> getitem (setitem d k v) k' = getitem d k'"
  by (simp add: getitem_def)

lemma research_without_suggestions:
  assumes "truthy (dict_get d (py ''research_query''))"
    and "map_of d (py ''suggestions'') = None"
  shows "research e issue_title d =
           (fst (web_search e (dict_get d (py ''research_query''))),
            Inl (KeyError (py ''suggestions'')))"
  using assms
  by (simp add: research_def gate_query getitem_setitem_other case_prod_beta)
     (simp add: getitem_def)

lemma research_with_suggestions:
  assumes "truthy (dict_get d (py ''research_query''))"
    and "map_of d (py ''suggestions'') = Some original"
    and "web_search e (dict_get d (py ''research_query'')) = (searched, search_results)"
    and "p = EnrichmentPrompt issue_title (dict_get d (py ''research_query'')) search_results original"
  shows "research e issue_title d =
           (searched @ [GenerateContent p],
            case generate_content e p of
              GenRaises \<Rightarrow> Inl ApiError
            | response \<Rightarrow>
                Inr (enrich e (setitem d (py ''search_results'') (JString search_results)) response))"
  using assms
  by (simp add: research_def gate_query getitem_setitem_other)
     (simp add: getitem_def split: gen_response.split)

lemma enrich_unparsed:
  assumes "clean_response t = Inr r" "\<forall>v. json_loads e r \<noteq> Parsed v"
  shows "enrich e analysis (Text t) = analysis"
  using assms by (cases "json_loads e r") (simp_all add: enrich_def)

lemma enrich_other_keys:
  "k \<noteq> py ''suggestions'' \<Longrightarrow> map_of (enrich e analysis response) k = map_of analysis k"
  by (simp add: enrich_def split: gen_response.split sum.split loads_outcome.split json.split)

lemma clean_doc_research: "clean_response doc_research = Inr doc_research"
  unfolding doc_research_def by (rule clean_response_py) (simp_all add: isspace_def)

lemma no_search_without_key: "web_search (replying first second) query = ([], search_unavailable)"
  by (simp add: web_search_def replying_def configured_def)

text \<open>
  Claim C4. When the research stage has reached the second model call and the text of
  that response, cleaned, fails to parse as JSON (whatever \<open>json.loads\<close> raises), no
  exception leaves the enrichment step: \<open>analyze_with_gemini\<close> returns the analysis with
  the search results attached and nothing else changed, so its suggestions are the
  original ones, those quoted in the enrichment prompt.
\<close>

theorem enrichment_parse_failure_keeps_suggestions:
  assumes "generate_content e (analysis_prompt issue_title issue_body) = Text t"
    and "clean_response t = Inr r"
    and "json_loads e r = Parsed (JObject d)"
    and "truthy (dict_get d (py ''needs_research''))"
    and "truthy (dict_get d (py ''research_query''))"
    and "map_of d (py ''suggestions'') = Some original"
    and "web_search e (dict_get d (py ''research_query'')) = (searched, search_results)"
    and "p = EnrichmentPrompt issue_title (dict_get d (py ''research_query'')) search_results original"
    and "generate_content e p = Text t'"
    and "clean_response t' = Inr r'"
    and "\<forall>v. json_loads e r' \<noteq> Parsed v"
  shows "analyze_with_gemini e issue_title issue_body =
           (GenerateContent (analysis_prompt issue_title issue_body) # searched @ [GenerateContent p],
            Inr (setitem d (py ''search_results'') (JString search_results)))
         \<and> getitem (setitem d (py ''search_results'') (JString search_results)) (py ''suggestions'')
             = Inr original"
proof -
  have "research e issue_title d =
          (searched @ [GenerateContent p],
           Inr (setitem d (py ''search_results'') (JString search_results)))"
    using assms(5-11) by (simp add: research_with_suggestions enrich_unparsed)
  with assms(1-4) show ?thesis
    by (simp add: analyze_cases [OF assms(1,2)] assms(5) getitem_def assms(6))
qed

theorem enrichment_parse_failure_keeps_suggestions_witness:
  "analyze_with_gemini (replying doc_research (py ''sorry'')) (py ''Crash on startup'') [] =
     ([GenerateContent (AnalysisPrompt (py ''Crash on startup'') no_description),
       GenerateContent (EnrichmentPrompt (py ''Crash on startup'') (JString (py ''q''))
                          search_unavailable (JArray [JString (py ''a'')]))],
      Inr researched)
   \<and> getitem researched (py ''suggestions'') = Inr (JArray [JString (py ''a'')])"
proof -
  let ?e = "replying doc_research (py ''sorry'')"
  let ?p = "EnrichmentPrompt (py ''Crash on startup'') (dict_get parsed_research (py ''research_query''))
              search_unavailable (JArray [JString (py ''a'')])"
  have 1: "generate_content ?e (analysis_prompt (py ''Crash on startup'') []) = Text doc_research"
    by (simp add: replying_def analysis_prompt_def)
  have 3: "json_loads ?e doc_research = Parsed (JObject parsed_research)"
    by (simp add: replying_loads sample_documents)
  have 4: "truthy (dict_get parsed_research (py ''needs_research''))"
    by (simp add: parsed_research_def dict_get_def)
  have 5: "truthy (dict_get parsed_research (py ''research_query''))"
    by (simp add: parsed_research_def dict_get_def)
  have 6: "map_of parsed_research (py ''suggestions'') = Some (JArray [JString (py ''a'')])"
    by (simp add: parsed_research_def)
  have 7: "web_search ?e (dict_get parsed_research (py ''research_query'')) = ([], search_unavailable)"
    by (rule no_search_without_key)
  have 9: "generate_content ?e ?p = Text (py ''sorry'')"
    by (simp add: replying_def)
  have 10: "clean_response (py ''sorry'') = Inr (py ''sorry'')"
    by (rule clean_response_py) (simp_all add: isspace_def)
  have 11: "\<forall>v. json_loads ?e (py ''sorry'') \<noteq> Parsed v"
    by (simp add: replying_loads sample_documents)
  have q: "dict_get parsed_research (py ''research_query'') = JString (py ''q'')"
    by (simp add: parsed_research_def dict_get_def)
  show ?thesis
    using enrichment_parse_failure_keeps_suggestions
            [OF 1 clean_doc_research 3 4 5 6 7 refl 9 10 11]
    by (simp add: analysis_prompt_def researched_def q)
qed

text \<open>
  The gate of the research stage: \<open>needs_research\<close> and \<open>research_query\<close> both truthy in
  the parsed analysis. When either is falsy or missing, the only event is the first
  model call and the parsed dict is returned as it is: no search, no \<open>search_results\<close>
  entry attached, no second model call. The fallback after \<open>JSONDecodeError\<close> is returned
  in the same way. When both are truthy, \<open>web_search\<close> is called with the query and its
  events follow the first model call; with a suggestions entry the second model call
  is made and every returned result carries the search results, without one the run
  ends in \<open>KeyError\<close>.
\<close>

theorem research_gate:
  assumes "generate_content e (analysis_prompt issue_title issue_body) = Text t"
    and "clean_response t = Inr r"
  shows
    "(json_loads e r = JSONDecodeError \<longrightarrow>
        analyze_with_gemini e issue_title issue_body =
          ([GenerateContent (analysis_prompt issue_title issue_body)], Inr (fallback r))) \<and>
     (\<forall>d. json_loads e r = Parsed (JObject d) \<longrightarrow>
        (if truthy (dict_get d (py ''needs_research'')) \<and> truthy (dict_get d (py ''research_query''))
         then fst (analyze_with_gemini e issue_title issue_body) =
                GenerateContent (analysis_prompt issue_title issue_body)
                # fst (web_search e (dict_get d (py ''research_query'')))
                @ (case map_of d (py ''suggestions'') of
                     None \<Rightarrow> []
                   | Some original \<Rightarrow>
                       [GenerateContent
                          (EnrichmentPrompt issue_title (dict_get d (py ''research_query''))
                             (snd (web_search e (dict_get d (py ''research_query'')))) original)])
              \<and> (\<forall>a. snd (analyze_with_gemini e issue_title issue_body) = Inr a \<longrightarrow>
                     map_of a (py ''search_results'') =
                       Some (JString (snd (web_search e (dict_get d (py ''research_query''))))))
              \<and> (map_of d (py ''suggestions'') = None \<longrightarrow>
                     snd (analyze_with_gemini e issue_title issue_body) =
                       Inl (KeyError (py ''suggestions'')))
         else analyze_with_gemini e issue_title issue_body =
                ([GenerateContent (analysis_prompt issue_title issue_body)], Inr d)))"
proof (intro conjI allI impI)
  assume "json_loads e r = JSONDecodeError"
  then show "analyze_with_gemini e issue_title issue_body =
          ([GenerateContent (analysis_prompt issue_title issue_body)], Inr (fallback r))"
    by (simp add: analyze_cases [OF assms])
next
  fix d
  assume d: "json_loads e r = Parsed (JObject d)"
  let ?gate = "truthy (dict_get d (py ''needs_research'')) \<and> truthy (dict_get d (py ''research_query''))"
  let ?ws = "web_search e (dict_get d (py ''research_query''))"
  show "if ?gate
         then fst (analyze_with_gemini e issue_title issue_body) =
                GenerateContent (analysis_prompt issue_title issue_body)
                # fst ?ws
                @ (case map_of d (py ''suggestions'') of
                     None \<Rightarrow> []
                   | Some original \<Rightarrow>
                       [GenerateContent
                          (EnrichmentPrompt issue_title (dict_get d (py ''research_query''))
                             (snd ?ws) original)])
              \<and> (\<forall>a. snd (analyze_with_gemini e issue_title issue_body) = Inr a \<longrightarrow>
                     map_of a (py ''search_results'') = Some (JString (snd ?ws)))
              \<and> (map_of d (py ''suggestions'') = None \<longrightarrow>
                     snd (analyze_with_gemini e issue_title issue_body) =
                       Inl (KeyError (py ''suggestions'')))
         else analyze_with_gemini e issue_title issue_body =
                ([GenerateContent (analysis_prompt issue_title issue_body)], Inr d)"
  proof (cases ?gate)
    case False
    with d show ?thesis by (auto simp: analyze_cases [OF assms])
  next
    case True
    then have a: "analyze_with_gemini e issue_title issue_body =
        (GenerateContent (analysis_prompt issue_title issue_body) # fst (research e issue_title d),
         snd (research e issue_title d))"
      using d by (simp add: analyze_cases [OF assms])
    show ?thesis
    proof (cases "map_of d (py ''suggestions'')")
      case None
      with True a show ?thesis by (simp add: research_without_suggestions)
    next
      case (Some original)
      have "research e issue_title d =
           (fst ?ws @ [GenerateContent (EnrichmentPrompt issue_title (dict_get d (py ''research_query'')) (snd ?ws) original)],
            case generate_content e (EnrichmentPrompt issue_title (dict_get d (py ''research_query'')) (snd ?ws) original) of
              GenRaises \<Rightarrow> Inl ApiError
            | response \<Rightarrow>
                Inr (enrich e (setitem d (py ''search_results'') (JString (snd ?ws))) response))"
        using True Some by (intro research_with_suggestions) simp_all
      with True a Some show ?thesis
        by (auto simp: enrich_other_keys split: gen_response.splits)
    qed
  qed
qed

theorem research_gate_witness:
  "analyze_with_gemini (replying (py ''garbage'') []) (py ''Crash on startup'') [] =
     ([GenerateContent (AnalysisPrompt (py ''Crash on startup'') no_description)],
      Inr (fallback (py ''garbage''))) \<and>
   analyze_with_gemini (replying doc_flag []) (py ''Crash on startup'') [] =
     ([GenerateContent (AnalysisPrompt (py ''Crash on startup'') no_description)],
      Inr [(py ''needs_research'', JBool True), (py ''research_query'', JNull)]) \<and>
   fst (analyze_with_gemini (replying doc_research (py ''sorry'')) (py ''Crash on startup'') []) =
     [GenerateContent (AnalysisPrompt (py ''Crash on startup'') no_description),
      GenerateContent (EnrichmentPrompt (py ''Crash on startup'') (JString (py ''q''))
                         search_unavailable (JArray [JString (py ''a'')]))]"
proof -
  let ?T = "py ''Crash on startup''"
  have g: "generate_content (replying first second) (analysis_prompt ?T []) = Text first"
    for first second
    by (simp add: replying_def analysis_prompt_def)
  have c1: "clean_response (py ''garbage'') = Inr (py ''garbage'')"
    by (rule clean_response_py) (simp_all add: isspace_def)
  have c2: "clean_response doc_flag = Inr doc_flag"
    unfolding doc_flag_def by (rule clean_response_py) (simp_all add: isspace_def)
  have l1: "json_loads (replying (py ''garbage'') []) (py ''garbage'') = JSONDecodeError"
    by (simp add: replying_loads sample_documents)
  have l2: "json_loads (replying doc_flag []) doc_flag =
              Parsed (JObject [(py ''needs_research'', JBool True), (py ''research_query'', JNull)])"
    by (simp add: replying_loads sample_documents)
  have l3: "json_loads (replying doc_research (py ''sorry'')) doc_research =
              Parsed (JObject parsed_research)"
    by (simp add: replying_loads sample_documents)
  have q: "dict_get parsed_research (py ''research_query'') = JString (py ''q'')"
      "dict_get parsed_research (py ''needs_research'') = JBool True"
      "map_of parsed_research (py ''suggestions'') = Some (JArray [JString (py ''a'')])"
    by (simp_all add: parsed_research_def dict_get_def)
  have "analyze_with_gemini (replying (py ''garbage'') []) ?T [] =
          ([GenerateContent (AnalysisPrompt ?T no_description)], Inr (fallback (py ''garbage'')))"
    using research_gate [OF g c1, of "[]"] l1 by (simp add: analysis_prompt_def)
  moreover have "analyze_with_gemini (replying doc_flag []) ?T [] =
          ([GenerateContent (AnalysisPrompt ?T no_description)],
           Inr [(py ''needs_research'', JBool True), (py ''research_query'', JNull)])"
    using research_gate [OF g c2, of "[]"] l2 by (simp add: analysis_prompt_def dict_get_def)
  moreover have "fst (analyze_with_gemini (replying doc_research (py ''sorry'')) ?T []) =
          [GenerateContent (AnalysisPrompt ?T no_description),
           GenerateContent (EnrichmentPrompt ?T (JString (py ''q''))
                              search_unavailable (JArray [JString (py ''a'')]))]"
    using research_gate [OF g clean_doc_research, of "py ''sorry''"] l3
    by (simp add: analysis_prompt_def q no_search_without_key)
  ultimately show ?thesis by simp
qed

text \<open>
  Claim C10. Under the gate the research stage has to run through the second model
  call. The source builds the enrichment prompt with \<open>analysis['suggestions']\<close>, where the
  Notifier reads the same entry with \<open>.get\<close> and a default: on a parsed analysis that asks
  for research and has no suggestions entry, the search is made and building the prompt
  raises \<open>KeyError\<close>, so there is no second model call and no result. The run is the model
  response \<open>{"needs_research": true, "research_query": "q"}\<close>, with a search credential.
\<close>

theorem research_stage_key_error:
  "analyze_with_gemini (keyed doc_bare) (py ''Crash on startup'') [] =
     ([GenerateContent (AnalysisPrompt (py ''Crash on startup'') no_description),
       TavilySearch (py ''key'') (JString (py ''q'')) 3],
      Inl (KeyError (py ''suggestions'')))"
proof -
  have g: "generate_content (keyed doc_bare) (analysis_prompt (py ''Crash on startup'') []) = Text doc_bare"
    by (simp add: keyed_def replying_def analysis_prompt_def)
  have c: "clean_response doc_bare = Inr doc_bare"
    unfolding doc_bare_def by (rule clean_response_py) (simp_all add: isspace_def)
  have l: "json_loads (keyed doc_bare) doc_bare =
             Parsed (JObject [(py ''needs_research'', JBool True),
                              (py ''research_query'', JString (py ''q''))])"
    by (simp add: keyed_def replying_loads sample_documents)
  have w: "fst (web_search (keyed doc_bare) query) = [TavilySearch (py ''key'') query 3]" for query
    by (simp add: web_search_def keyed_def configured_def)
  show ?thesis
    by (simp add: analyze_cases [OF g c] l research_without_suggestions w dict_get_def
          analysis_prompt_def)
qed

section \<open>What the Analyzer returns\<close>

lemma research_cases:
  assumes "truthy (dict_get d (py ''research_query''))"
  shows "snd (research e issue_title d) =
           (case map_of d (py ''suggestions'') of
              None \<Rightarrow> Inl (KeyError (py ''suggestions''))
            | Some original \<Rightarrow>
                (let found = snd (web_search e (dict_get d (py ''research_query'')));
                     p = EnrichmentPrompt issue_title (dict_get d (py ''research_query'')) found original
                 in case generate_content e p of
                      GenRaises \<Rightarrow> Inl ApiError
                    | response \<Rightarrow> Inr (enrich e (setitem d (py ''search_results'') (JString found)) response)))"
proof (cases "map_of d (py ''suggestions'')")
  case None
  with assms show ?thesis by (simp add: research_without_suggestions)
next
  case (Some original)
  let ?ws = "web_search e (dict_get d (py ''research_query''))"
  have "research e issue_title d =
           (fst ?ws @ [GenerateContent (EnrichmentPrompt issue_title (dict_get d (py ''research_query'')) (snd ?ws) original)],
            case generate_content e (EnrichmentPrompt issue_title (dict_get d (py ''research_query'')) (snd ?ws) original) of
              GenRaises \<Rightarrow> Inl ApiError
            | response \<Rightarrow>
                Inr (enrich e (setitem d (py ''search_results'') (JString (snd ?ws))) response))"
    using assms Some by (intro research_with_suggestions) simp_all
  with Some show ?thesis by (simp add: Let_def)
qed









section \<open>The suggestions\<close>

lemma returned_objects_simps:
  "returned_objects e [] = []"
  "returned_objects e (GenerateContent p # events) =
     (case returned_object e p of None \<Rightarrow> [] | Some d \<Rightarrow> [d]) @ returned_objects e events"
  "returned_objects e (TavilySearch key query n # events) = returned_objects e events"
  "returned_objects e (xs @ ys) = returned_objects e xs @ returned_objects e ys"
  by (simp_all add: returned_objects_def map_filter_def split: option.split)

lemma returned_objects_search: "returned_objects e (fst (web_search e query)) = []"
  by (simp add: web_search_def returned_objects_simps split: option.split)

lemma returned_first:
  assumes "generate_content e p = Text t" "clean_response t = Inr r"
    and "json_loads e r = Parsed (JObject d)"
  shows "returned_object e p = Some d"
  using assms by (simp add: returned_object_def)

lemma enrich_supplied:
  assumes "map_of a (py ''suggestions'') = Some original"
  shows "map_of (enrich e a (generate_content e p)) (py ''suggestions'') =
           (case returned_object e p of
              None \<Rightarrow> Some original
            | Some d \<Rightarrow> (case map_of d (py ''suggestions'') of None \<Rightarrow> Some original | Some v \<Rightarrow> Some v))"
  using assms
  by (simp add: enrich_def returned_object_def getitem_def dict_get_default_def dict_get_def
        split: gen_response.split sum.split loads_outcome.split json.split option.split)

lemma supplied_simps:
  "supplied [d] = map_of d (py ''suggestions'')"
  "map_of d (py ''suggestions'') = Some original \<Longrightarrow>
     supplied [d, d'] =
       (case map_of d' (py ''suggestions'') of None \<Rightarrow> Some original | Some v \<Rightarrow> Some v)"
  by (auto simp: supplied_def Let_def split: option.split)

lemma supplied_capped:
  assumes "list_all capped objects" "objects \<noteq> []" "map_of a (py ''suggestions'') = supplied objects"
  shows "capped a"
proof (cases "filter (\<lambda>d. map_of d (py ''suggestions'') \<noteq> None) objects = []")
  case True
  with assms(3) show ?thesis by (simp add: supplied_def capped_def)
next
  case False
  let ?d = "last (filter (\<lambda>d. map_of d (py ''suggestions'') \<noteq> None) objects)"
  from False have "?d \<in> set (filter (\<lambda>d. map_of d (py ''suggestions'') \<noteq> None) objects)"
    by (rule last_in_set)
  then have "?d \<in> set objects" by simp
  with assms(1) have "capped ?d" by (simp add: list_all_iff)
  moreover from False assms(3) have "map_of a (py ''suggestions'') = map_of ?d (py ''suggestions'')"
    by (simp add: supplied_def Let_def)
  ultimately show ?thesis by (simp add: capped_def)
qed

lemma run_supplied:
  assumes "analyze_with_gemini e issue_title issue_body = (events, Inr a)"
  shows "map_of a (py ''suggestions'') =
           (if returned_objects e events = []
            then Some (JArray [JString (py ''Revisar a issue manualmente'')])
            else supplied (returned_objects e events))"
proof (cases "generate_content e (analysis_prompt issue_title issue_body)")
  case GenRaises
  with assms show ?thesis by (simp add: analyze_with_gemini_def)
next
  case NoText
  with assms show ?thesis by (simp add: analyze_with_gemini_def)
next
  case (Text t)
  let ?p = "analysis_prompt issue_title issue_body"
  obtain r where r: "clean_response t = Inr r" using clean_response_total by blast
  note run = analyze_cases [OF Text r]
  show ?thesis
  proof (cases "json_loads e r")
    case JSONDecodeError
    with run assms have "a = fallback r" and "events = [GenerateContent ?p]" by simp_all
    moreover have "returned_object e ?p = None"
      using Text r JSONDecodeError by (simp add: returned_object_def)
    ultimately show ?thesis by (simp add: returned_objects_simps fallback_def)
  next
    case (LoadsRaises err)
    with run assms show ?thesis by simp
  next
    case (Parsed v)
    show ?thesis
    proof (cases "\<exists>d. v = JObject d")
      case False
      with run Parsed assms show ?thesis by (cases v) auto
    next
      case True
      then obtain d where v: "v = JObject d" by blast
      with Parsed have first: "returned_object e ?p = Some d"
        using Text r by (simp add: returned_first)
      show ?thesis
      proof (cases "truthy (dict_get d (py ''needs_research'')) \<and> truthy (dict_get d (py ''research_query''))")
        case False
        with run Parsed v assms have "a = d" and "events = [GenerateContent ?p]"
          by auto
        with first show ?thesis by (simp add: returned_objects_simps supplied_simps)
      next
        case True
        with run Parsed v assms have res: "snd (research e issue_title d) = Inr a"
          and ev: "events = GenerateContent ?p # fst (research e issue_title d)"
          by simp_all
        from True res obtain original where o: "map_of d (py ''suggestions'') = Some original"
          by (cases "map_of d (py ''suggestions'')") (auto simp: research_cases)
        let ?ws = "web_search e (dict_get d (py ''research_query''))"
        let ?q = "EnrichmentPrompt issue_title (dict_get d (py ''research_query'')) (snd ?ws) original"
        let ?d = "setitem d (py ''search_results'') (JString (snd ?ws))"
        have full: "research e issue_title d =
           (fst ?ws @ [GenerateContent ?q],
            case generate_content e ?q of
              GenRaises \<Rightarrow> Inl ApiError
            | response \<Rightarrow> Inr (enrich e ?d response))"
          using True o by (intro research_with_suggestions) simp_all
        with res have a: "a = enrich e ?d (generate_content e ?q)"
          by (auto split: gen_response.splits)
        have o': "map_of ?d (py ''suggestions'') = Some original"
          using o by simp
        have objs: "returned_objects e events =
                      d # (case returned_object e ?q of None \<Rightarrow> [] | Some d' \<Rightarrow> [d'])"
          by (simp add: ev full first returned_objects_simps returned_objects_search)
        show ?thesis
          unfolding objs a enrich_supplied [OF o']
          by (simp add: supplied_simps o split: option.split)
      qed
    qed
  qed
qed

text \<open>
  Claim C8, as amended. The claim as stated fails: the limit of three is only asked for
  in the two prompts, and nothing in the source checks or truncates the list (see the
  counterexample). What holds, for every run of \<open>analyze_with_gemini\<close> that returns a
  result: the suggestions entry of the result is the one the model supplied, that is,
  the entry of the last JSON object the model returned in this run that has one (no
  entry if none has one), and the single fallback suggestion if the model returned no
  JSON object. So the result has no suggestions entry or a list of at most three items
  whenever this holds of the JSON objects the model returned in this run, on the initial
  path and after the enrichment.
\<close>

theorem suggestions_passed_through:
  assumes "analyze_with_gemini e issue_title issue_body = (events, Inr a)"
  shows "map_of a (py ''suggestions'') =
           (if returned_objects e events = []
            then Some (JArray [JString (py ''Revisar a issue manualmente'')])
            else supplied (returned_objects e events))
       \<and> (list_all capped (returned_objects e events) \<longrightarrow> capped a)"
proof (intro conjI impI)
  show s: "map_of a (py ''suggestions'') =
           (if returned_objects e events = []
            then Some (JArray [JString (py ''Revisar a issue manualmente'')])
            else supplied (returned_objects e events))"
    using assms by (rule run_supplied)
  assume all: "list_all capped (returned_objects e events)"
  show "capped a"
  proof (cases "returned_objects e events = []")
    case True
    with s show ?thesis by (simp add: capped_def)
  next
    case False
    with s have "map_of a (py ''suggestions'') = supplied (returned_objects e events)" by simp
    with all False show ?thesis by (rule supplied_capped)
  qed
qed

theorem suggestions_passed_through_counterexample:
  "snd (analyze_with_gemini (replying doc_many []) (py ''Crash on startup'') []) =
     Inr [(py ''suggestions'',
           JArray [JString (py ''a''), JString (py ''b''), JString (py ''c''), JString (py ''d'')])]"
proof -
  have c: "clean_response doc_many = Inr doc_many"
    unfolding doc_many_def by (rule clean_response_py) (simp_all add: isspace_def)
  have l: "json_loads (replying doc_many []) doc_many =
             Parsed (JObject [(py ''suggestions'',
               JArray [JString (py ''a''), JString (py ''b''), JString (py ''c''), JString (py ''d'')])])"
    by (simp add: replying_loads sample_documents)
  show ?thesis
    by (simp add: analyze_cases [OF replying_first c] l dict_get_def)
qed

theorem suggestions_passed_through_witness:
  "analyze_with_gemini (replying doc_research doc_refined) (py ''Crash on startup'') [] =
     ([GenerateContent (AnalysisPrompt (py ''Crash on startup'') no_description),
       GenerateContent (EnrichmentPrompt (py ''Crash on startup'') (JString (py ''q''))
                          search_unavailable (JArray [JString (py ''a'')]))],
      Inr (setitem researched (py ''suggestions'') (JArray [JString (py ''x'')]))) \<and>
   returned_objects (replying doc_research doc_refined)
     [GenerateContent (AnalysisPrompt (py ''Crash on startup'') no_description),
      GenerateContent (EnrichmentPrompt (py ''Crash on startup'') (JString (py ''q''))
                         search_unavailable (JArray [JString (py ''a'')]))] =
     [parsed_research, [(py ''suggestions'', JArray [JString (py ''x'')])]] \<and>
   map_of (setitem researched (py ''suggestions'') (JArray [JString (py ''x'')])) (py ''suggestions'') =
     supplied [parsed_research, [(py ''suggestions'', JArray [JString (py ''x'')])]] \<and>
   capped (setitem researched (py ''suggestions'') (JArray [JString (py ''x'')]))"
proof -
  let ?T = "py ''Crash on startup''"
  let ?e = "replying doc_research doc_refined"
  let ?p = "AnalysisPrompt ?T no_description"
  let ?q = "EnrichmentPrompt ?T (JString (py ''q'')) search_unavailable (JArray [JString (py ''a'')])"
  have l: "json_loads ?e doc_research = Parsed (JObject parsed_research)"
    by (simp add: replying_loads sample_documents)
  have l': "json_loads ?e doc_refined = Parsed (JObject [(py ''suggestions'', JArray [JString (py ''x'')])])"
    by (simp add: replying_loads sample_documents)
  have q: "dict_get parsed_research (py ''research_query'') = JString (py ''q'')"
      "dict_get parsed_research (py ''needs_research'') = JBool True"
      "map_of parsed_research (py ''suggestions'') = Some (JArray [JString (py ''a'')])"
    by (simp_all add: parsed_research_def dict_get_def)
  have c: "clean_response doc_refined = Inr doc_refined"
    unfolding doc_refined_def by (rule clean_response_py) (simp_all add: isspace_def)
  have g: "generate_content ?e ?q = Text doc_refined"
    by (simp add: replying_def)
  have g0: "generate_content ?e ?p = Text doc_research"
    by (simp add: replying_def)
  have en: "enrich ?e researched (Text doc_refined) =
             setitem researched (py ''suggestions'') (JArray [JString (py ''x'')])"
  proof -
    have "getitem researched (py ''suggestions'') = Inr (JArray [JString (py ''a'')])"
      by (simp add: getitem_def researched_def q)
    then show ?thesis
      by (simp add: enrich_def c l' dict_get_default_def)
  qed
  have run: "analyze_with_gemini ?e ?T [] =
               ([GenerateContent ?p, GenerateContent ?q],
                Inr (setitem researched (py ''suggestions'') (JArray [JString (py ''x'')])))"
  proof -
    have "research ?e ?T parsed_research =
            ([] @ [GenerateContent ?q],
             case generate_content ?e ?q of
               GenRaises \<Rightarrow> Inl ApiError
             | response \<Rightarrow>
                 Inr (enrich ?e (setitem parsed_research (py ''search_results'') (JString search_unavailable))
                        response))"
      by (rule research_with_suggestions) (simp_all add: q no_search_without_key)
    then show ?thesis
      using en by (simp add: analyze_cases [OF replying_first clean_doc_research] l q g researched_def
                     analysis_prompt_def)
  qed
  have objs: "returned_objects ?e [GenerateContent ?p, GenerateContent ?q] =
                [parsed_research, [(py ''suggestions'', JArray [JString (py ''x'')])]]"
    by (simp add: returned_objects_simps returned_first [OF g0 clean_doc_research l]
          returned_first [OF g c l'])
  have ok: "list_all capped [parsed_research, [(py ''suggestions'', JArray [JString (py ''x'')])]]"
    by (simp add: capped_def parsed_research_def)
  show ?thesis
    using suggestions_passed_through [OF run] ok run objs by simp
qed

section \<open>Fenced responses\<close>

lemma research_other_response:
  "research (e\<lparr>generate_content := (generate_content e)(AnalysisPrompt a b := x)\<rparr>) issue_title d
     = research e issue_title d"
proof -
  let ?e = "e\<lparr>generate_content := (generate_content e)(AnalysisPrompt a b := x)\<rparr>"
  have "web_search ?e query = web_search e query" for query
    by (simp add: web_search_def split: option.split)
  moreover have "enrich ?e analysis response = enrich e analysis response" for analysis response
    by (simp add: enrich_def split: gen_response.split sum.split loads_outcome.split)
  ultimately show ?thesis
    by (simp add: research_def Let_def case_prod_beta split: sum.split gen_response.split)
qed

lemma analyze_same_clean:
  assumes "generate_content e (analysis_prompt issue_title issue_body) = Text t"
    and "clean_response t' = clean_response t"
  shows "analyze_with_gemini
           (e\<lparr>generate_content :=
                (generate_content e)(analysis_prompt issue_title issue_body := Text t')\<rparr>)
           issue_title issue_body
         = analyze_with_gemini e issue_title issue_body"
  using assms
  by (simp add: analyze_with_gemini_def analysis_prompt_def research_other_response Let_def
        case_prod_beta split: sum.split option.split json.split loads_outcome.split)

lemma no_fence_py: "CHR 0x60 \<notin> set s \<Longrightarrow> \<not> sublist fence (py s)"
  by (blast dest: sublist_fence_tick tick_in_py)

lemma clean_unfenced:
  assumes "\<not> startswith (strip t) fence"
  shows "clean_response t = Inr (strip t)"
  using assms by (simp add: clean_response_def strip_fence_def strip_strip)

lemma strip_py:
  assumes "s \<noteq> []" "\<not> isspace (of_char (hd s))" "\<not> isspace (of_char (last s))"
  shows "strip (py s) = py s"
  using assms by (intro strip_ends) (simp_all add: py_def hd_map last_map)

lemma clean_fenced_ticks: "clean_response (fenced [] [] doc_ticks) = Inr doc_cut"
proof -
  let ?w = "fenced [] [] doc_ticks"
  obtain rest where w: "?w = fence @ doc_cut @ fence @ rest"
    by (simp add: fenced_def doc_ticks_def doc_cut_def py_def fence_def)
  have "strip ?w = ?w"
    by (rule strip_ends) (simp_all add: fenced_def fence_def isspace_def)
  moreover have "startswith ?w fence"
    by (simp add: fenced_def startswith_def)
  moreover have "split ?w fence = [] # doc_cut # split_from fence [] rest"
  proof -
    have 1: "\<not> sublist fence doc_cut"
      unfolding doc_cut_def by (rule no_fence_py) simp
    have 2: "\<not> suffix [96] (doc_cut @ [])"
      by (simp add: doc_cut_def py_def suffix_def)
    show ?thesis
      unfolding split_def w split_from_fence
      using split_from_wrapped [of "[]" doc_cut "[]" "[]" rest, OF _ 1 _ 2] by simp
  qed
  moreover have "\<not> startswith doc_cut (py ''json'')"
    by (simp add: startswith_def doc_cut_def py_def)
  moreover have "strip doc_cut = doc_cut"
    unfolding doc_cut_def by (rule strip_py) (simp_all add: isspace_def)
  ultimately show ?thesis
    by (simp add: clean_response_def strip_fence_def index_def)
qed

lemma clean_doc_ticks: "clean_response doc_ticks = Inr doc_ticks"
proof -
  have "strip doc_ticks = doc_ticks"
    unfolding doc_ticks_def by (rule strip_py) (simp_all add: isspace_def)
  moreover have "\<not> startswith doc_ticks fence"
    by (simp add: startswith_def doc_ticks_def py_def fence_def)
  ultimately show ?thesis by (simp add: clean_unfenced)
qed

lemma clean_fenced_json: "clean_response (fenced [] [] (py ''json{}'')) = Inr (py ''{}'')"
proof -
  have "fenced [] [] (py ''json{}'') = fenced (py ''json'') [] (py ''{}'')"
    by (simp add: fenced_def py_def)
  moreover have "clean_response (fenced (py ''json'') [] (py ''{}'')) = Inr (strip (py ''{}''))"
  proof (rule clean_response_fenced)
    show "\<not> sublist fence (py ''{}'')" by (rule no_fence_py) simp
    show "[] = [] \<longrightarrow> \<not> suffix [96] (py ''{}'')" by (simp add: suffix_def py_def)
  qed simp_all
  moreover have "strip (py ''{}'') = py ''{}''"
    by (rule strip_py) (simp_all add: isspace_def)
  ultimately show ?thesis by simp
qed

text \<open>
  Claim C3, as amended. The claim as stated fails for some texts: the fence is removed
  by taking what lies between the first two markers, so a text that itself contains a
  marker is cut there, and after a bare marker a text that begins with \<open>json\<close> loses
  these four characters (see the counterexample). What holds: for every response text
  \<open>t\<close> that contains no fence marker, the Analyzer returns the same result (events and
  outcome) when the model answers with \<open>t\<close> wrapped in markers as when it answers with
  \<open>t\<close>, for the opening marker \<open>```\<close> or \<open>```json\<close>, with the markers on lines of their
  own, or directly around \<open>t\<close> if \<open>t\<close> does not end in a backtick and, after a bare
  opening marker, does not begin with \<open>json\<close>.
\<close>

theorem fenced_response_same_analysis:
  assumes "\<not> sublist fence t"
    and "lang = [] \<or> lang = py ''json''"
    and "pad = [] \<or> pad = [10]"
    and "pad = [] \<longrightarrow> \<not> suffix [96] t"
    and "lang = [] \<and> pad = [] \<longrightarrow> \<not> startswith t (py ''json'')"
    and "generate_content e (analysis_prompt issue_title issue_body) = Text t"
  shows "analyze_with_gemini
           (e\<lparr>generate_content :=
                (generate_content e)(analysis_prompt issue_title issue_body :=
                                       Text (fenced lang pad t))\<rparr>)
           issue_title issue_body
         = analyze_with_gemini e issue_title issue_body"
proof -
  have "clean_response (fenced lang pad t) = clean_response t"
    using assms(1-5) by (simp add: clean_response_fenced clean_response_plain)
  with assms(6) show ?thesis by (rule analyze_same_clean)
qed

theorem fenced_response_same_analysis_counterexample:
  "analyze_with_gemini (replying (fenced [] [] doc_ticks) []) (py ''Crash on startup'') []
     \<noteq> analyze_with_gemini (replying doc_ticks []) (py ''Crash on startup'') [] \<and>
   analyze_with_gemini (replying (fenced [] [] (py ''json{}'')) []) (py ''Crash on startup'') []
     \<noteq> analyze_with_gemini (replying (py ''json{}'') []) (py ''Crash on startup'') []"
proof -
  let ?T = "py ''Crash on startup''"
  let ?p = "GenerateContent (analysis_prompt ?T [])"
  have l1: "json_loads (replying first second) doc_cut = JSONDecodeError" for first second
    by (simp add: replying_loads sample_documents)
  have l2: "json_loads (replying first second) doc_ticks =
              Parsed (JObject [(py ''summary'', JString (py ''a'' @ fence @ py ''b''))])" for first second
    by (simp add: replying_loads sample_documents)
  have l3: "json_loads (replying first second) (py ''{}'') = Parsed (JObject [])" for first second
    by (simp add: replying_loads sample_documents)
  have l4: "json_loads (replying first second) (py ''json{}'') = JSONDecodeError" for first second
    by (simp add: replying_loads sample_documents)
  have c4: "clean_response (py ''json{}'') = Inr (py ''json{}'')"
    by (rule clean_response_py) (simp_all add: isspace_def)
  have a1: "analyze_with_gemini (replying (fenced [] [] doc_ticks) []) ?T [] = ([?p], Inr (fallback doc_cut))"
    by (simp add: analyze_cases [OF replying_first clean_fenced_ticks] l1)
  have a2: "analyze_with_gemini (replying doc_ticks []) ?T [] =
              ([?p], Inr [(py ''summary'', JString (py ''a'' @ fence @ py ''b''))])"
    by (simp add: analyze_cases [OF replying_first clean_doc_ticks] l2 dict_get_def)
  have a3: "analyze_with_gemini (replying (fenced [] [] (py ''json{}'')) []) ?T [] = ([?p], Inr [])"
    by (simp add: analyze_cases [OF replying_first clean_fenced_json] l3 dict_get_def)
  have a4: "analyze_with_gemini (replying (py ''json{}'') []) ?T [] = ([?p], Inr (fallback (py ''json{}'')))"
    by (simp add: analyze_cases [OF replying_first c4] l4)
  show ?thesis
    by (simp add: a1 a2 a3 a4 fallback_def)
qed

theorem fenced_response_same_analysis_witness:
  "analyze_with_gemini
     ((replying (py ''{}'') [])
        \<lparr>generate_content :=
           (generate_content (replying (py ''{}'') []))
             (analysis_prompt (py ''Crash on startup'') [] :=
                Text (fenced (py ''json'') [10] (py ''{}'')))\<rparr>)
     (py ''Crash on startup'') []
   = analyze_with_gemini (replying (py ''{}'') []) (py ''Crash on startup'') []"
proof -
  have 1: "\<not> sublist fence (py ''{}'')"
    by (rule no_fence_py) simp
  have 2: "py ''json'' = [] \<or> py ''json'' = py ''json''" by simp
  have 3: "[10] = [] \<or> [10::nat] = [10]" by simp
  have 4: "[10::nat] = [] \<longrightarrow> \<not> suffix [96] (py ''{}'')" by simp
  have 5: "py ''json'' = [] \<and> [10::nat] = [] \<longrightarrow> \<not> startswith (py ''{}'') (py ''json'')" by simp
  show ?thesis
    using fenced_response_same_analysis [OF 1 2 3 4 5 replying_first] .
qed

end
